theory Spec2Isabelle
  imports Complex_Main "HOL-Library.Word" "HOL-Library.Log_Nat"
begin

section \<open>Data model of the two pages\<close>

text \<open>
  The repository is a pair of React pages: the segmented (DFS) page and the whole-file
  (No-DFS) page \<^verbatim>\<open>app/nodfs/page.tsx\<close>. Each page keeps its state in \<^verbatim>\<open>useState\<close> cells and
  changes it in four asynchronous handlers. A handler is modelled as a function from the
  state its closure sees when it is called, and from the outcome of every promise it
  awaits, to the state after its last setter call, together with the requests it sent.

  JavaScript numbers that count things (bytes, chunks) are natural numbers here and the
  millisecond clock is an integer. The progress percentages, which the source computes
  with \<^verbatim>\<open>/\<close> and \<^verbatim>\<open>*\<close>, are binary64 numbers: they are modelled as the rationals they
  denote, and each of the two operations rounds its exact result to binary64.
\<close>

type_synonym Uint8Array = "8 word list"

text \<open>The interface \<^verbatim>\<open>NoDFSFile\<close>; \<^verbatim>\<open>FileRecord\<close> has the same members and \<^verbatim>\<open>total_chunks\<close>.\<close>

record NoDFSFile =
  file_id :: int
  filename :: string
  file_hash :: string
  file_size :: nat
  created_at :: string

record FileRecord = NoDFSFile +
  total_chunks :: nat

text \<open>The browser's \<^verbatim>\<open>File\<close> object picked in the form: only its presence matters.\<close>

record File =
  file_name :: string
  file_bytes :: Uint8Array

text \<open>
  The \<^verbatim>\<open>useState\<close> cells both pages have, and the two more of the DFS page. The type
  parameter is the page's record type.
\<close>

record 'f page_state =
  fileList :: "'f list"
  selectedFile :: "File option"
  uploading :: bool
  downloadTime :: "int option"
  errorMessage :: string

record dfs_state = "FileRecord page_state" +
  downloadProgress :: "rat list"
  downloadingFile :: "FileRecord option"

subsection \<open>Promises, responses and thrown errors\<close>

text \<open>What an \<^verbatim>\<open>await\<close> gives: the promise rejects, and the await throws, or it resolves.\<close>

datatype 'a promise = Rejected | Resolved 'a

text \<open>
  What a \<^verbatim>\<open>try\<close> block can throw: a rejected promise, an \<^verbatim>\<open>Error\<close> made by the page with
  its message, or the \<^verbatim>\<open>RangeError\<close> of a typed-array write past the end.
\<close>

datatype error = Rejection | Error string | RangeError

text \<open>
  The response of the list, upload and delete endpoints: \<^verbatim>\<open>res.ok\<close> and the awaited
  \<^verbatim>\<open>res.json()\<close>. For the list endpoint the parsed value is reduced to its \<^verbatim>\<open>files\<close>
  member, which the page stores as it is.
\<close>

record 'd response =
  ok :: bool
  json :: "'d promise"

text \<open>
  The body of a download response as the reader sees it: the segments that
  \<^verbatim>\<open>reader.read()\<close> resolves to with \<^verbatim>\<open>done\<close> false, in order, and then either the read
  that resolves with \<^verbatim>\<open>done\<close> true or a read that rejects. A read with \<^verbatim>\<open>done\<close> false
  carries a \<^verbatim>\<open>Uint8Array\<close>, which is truthy also when it is empty, so the guard
  \<^verbatim>\<open>if (value)\<close> holds for every segment. The stream is finite.
\<close>

datatype stream_end = Done | ReadFails

record body_stream =
  segments :: "Uint8Array list"
  ending :: stream_end

text \<open>
  A download response: \<^verbatim>\<open>response.body\<close>, which may be null, and the \<^verbatim>\<open>Content-Length\<close>
  header, absent or a decimal count.
\<close>

record download_response =
  body :: "body_stream option"
  content_length :: "nat option"

subsection \<open>Requests\<close>

datatype pipeline = DFS | NoDFS

text \<open>A request: its path under \<^verbatim>\<open>backendUrl\<close>, its \<^verbatim>\<open>file_id\<close> parameter or form body.\<close>

datatype request = GET string "int option" | POST string File | DELETE string int

fun list_path :: "pipeline \<Rightarrow> string" where
  "list_path DFS = ''/list''"
| "list_path NoDFS = ''/list_nodfs''"

fun upload_path :: "pipeline \<Rightarrow> string" where
  "upload_path DFS = ''/upload''"
| "upload_path NoDFS = ''/upload_nodfs''"

fun download_path :: "pipeline \<Rightarrow> string" where
  "download_path DFS = ''/download''"
| "download_path NoDFS = ''/download_nodfs''"

fun delete_path :: "pipeline \<Rightarrow> string" where
  "delete_path DFS = ''/delete''"
| "delete_path NoDFS = ''/delete_nodfs''"

section \<open>The download of the DFS page\<close>

subsection \<open>Progress\<close>

text \<open>
  \<^verbatim>\<open>Number(response.headers.get('Content-Length')) || 1\<close>: an absent header is null,
  \<^verbatim>\<open>Number(null)\<close> is 0, and 0 is falsy, so both the absent header and a declared length of
  0 give 1. (So does a header that is no number: \<^verbatim>\<open>NaN\<close> is falsy too.)
\<close>

definition Number_header :: "nat option \<Rightarrow> rat" where
  "Number_header h = (case h of None \<Rightarrow> 0 | Some n \<Rightarrow> of_nat n)"

definition totalSize_of :: "nat option \<Rightarrow> rat" where
  "totalSize_of h = (if Number_header h = 0 then 1 else Number_header h)"

text \<open>
  Rounding to binary64, the arithmetic of JavaScript numbers: to the nearest
  representable number, a tie going to the one with the even significand. First the
  rounding of a rational to an integer with that rule.
\<close>

definition round_half_even :: "rat \<Rightarrow> int" where
  "round_half_even q =
     (let f = \<lfloor>q\<rfloor>; d = q - of_int f
      in if d < 1 / 2 then f else if 1 / 2 < d then f + 1 else if even f then f else f + 1)"

text \<open>
  The binary exponent of a positive rational \<open>x\<close>: the \<open>e\<close> with \<^verbatim>\<open>2^e <= x < 2^(e+1)\<close>,
  found from the bit lengths of numerator and denominator.
\<close>

definition binary_exponent :: "rat \<Rightarrow> int" where
  "binary_exponent x =
     (let (a, b) = quotient_of x; e0 = bitlen a - bitlen b
      in if 2 powi e0 \<le> x then e0 else e0 - 1)"

text \<open>
  The exponent of the unit in the last place at \<open>x\<close>: a binary64 significand has 53 bits,
  and below \<^verbatim>\<open>2^-1022\<close> the numbers are subnormal, spaced \<^verbatim>\<open>2^-1074\<close> apart.
\<close>

definition ulp_exponent :: "rat \<Rightarrow> int" where
  "ulp_exponent x = max (binary_exponent \<bar>x\<bar> - 52) (- 1074)"

text \<open>
  The binary64 number that an operation with exact result \<open>x\<close> returns. The overflow to
  \<^verbatim>\<open>Infinity\<close> at \<^verbatim>\<open>2^1024\<close> is not modelled: byte counts stay far below.
\<close>

definition round64 :: "rat \<Rightarrow> rat" where
  "round64 x =
     (let u = 2 powi ulp_exponent x
      in of_int (round_half_even (x / u)) * u)"

text \<open>
  \<^verbatim>\<open>Math.min(100, (received / totalSize) * 100)\<close>: the quotient is rounded, then the
  product.
\<close>

definition overallProgress :: "nat \<Rightarrow> rat \<Rightarrow> rat" where
  "overallProgress received totalSize =
     min 100 (round64 (round64 (of_nat received / totalSize) * 100))"

text \<open>
  \<^verbatim>\<open>newProgress[i] = v\<close> on a JavaScript array: inside the array the slot is overwritten;
  at \<^verbatim>\<open>i = length\<close> the array grows by one. The loop below counts up from 0 and each
  store keeps the next index within the array or at its end (lemma \<open>js_store_length\<close>),
  so it never writes beyond \<^verbatim>\<open>length\<close>, where JavaScript would leave holes.
\<close>

definition js_store :: "rat list \<Rightarrow> nat \<Rightarrow> rat \<Rightarrow> rat list" where
  "js_store xs i v = (if i < length xs then xs[i := v] else xs @ [v])"

text \<open>
  \<^verbatim>\<open>for (let i = 0; i < totalChunks; i++) newProgress[i] = Math.min(100, overallProgress)\<close>,
  from the loop variable \<open>i\<close> on.
\<close>

function assign_slots :: "nat \<Rightarrow> nat \<Rightarrow> rat \<Rightarrow> rat list \<Rightarrow> rat list" where
  "assign_slots i totalChunks overall newProgress =
     (if i < totalChunks
      then assign_slots (i + 1) totalChunks overall (js_store newProgress i (min 100 overall))
      else newProgress)"
  by pat_completeness auto
termination
  by (relation "measure (\<lambda>(i, totalChunks, overall, newProgress). totalChunks - i)") auto

declare assign_slots.simps [simp del]

text \<open>
  Lines 112 to 115: \<open>captured\<close> is \<^verbatim>\<open>downloadProgress\<close>, the state cell as the handler's
  closure holds it, that is, as it was when the handler was called; \<^verbatim>\<open>slice()\<close> copies it.
\<close>

definition distribute :: "rat list \<Rightarrow> nat \<Rightarrow> rat \<Rightarrow> rat list" where
  "distribute captured totalChunks overall = assign_slots 0 totalChunks overall captured"

subsection \<open>The read loop\<close>

text \<open>
  The variables of the \<^verbatim>\<open>while (true)\<close> loop: \<^verbatim>\<open>chunks\<close>, \<^verbatim>\<open>received\<close>, the state cell
  \<^verbatim>\<open>downloadProgress\<close> as the last \<^verbatim>\<open>setDownloadProgress\<close> left it, and the arguments of
  all calls of \<^verbatim>\<open>setDownloadProgress\<close> so far, in order.
\<close>

record read_vars =
  chunks :: "Uint8Array list"
  received :: nat
  progress_cell :: "rat list"
  updates :: "rat list list"

fun read_loop :: "rat list \<Rightarrow> nat \<Rightarrow> rat \<Rightarrow> Uint8Array list \<Rightarrow> read_vars \<Rightarrow> read_vars" where
  "read_loop captured totalChunks totalSize [] v = v"
| "read_loop captured totalChunks totalSize (val # rest) v =
     (let chunks' = chunks v @ [val];
          received' = received v + length val;
          newProgress = distribute captured totalChunks (overallProgress received' totalSize)
      in read_loop captured totalChunks totalSize rest
           \<lparr>chunks = chunks', received = received', progress_cell = newProgress,
            updates = updates v @ [newProgress]\<rparr>)"

text \<open>
  The values the loop variable \<^verbatim>\<open>received\<close> takes, one after each segment
  (\<^verbatim>\<open>received += value.length\<close>), starting from the value \<open>r\<close> it has before the first.
\<close>

fun received_after :: "nat \<Rightarrow> Uint8Array list \<Rightarrow> nat list" where
  "received_after r [] = []"
| "received_after r (val # rest) = (r + length val) # received_after (r + length val) rest"

subsection \<open>Reassembly\<close>

text \<open>
  \<^verbatim>\<open>mergedBuffer.set(chunk, offset)\<close>: a typed array has a fixed length, and a source that
  does not fit at the offset throws a \<^verbatim>\<open>RangeError\<close>.
\<close>

definition typed_set :: "Uint8Array \<Rightarrow> Uint8Array \<Rightarrow> nat \<Rightarrow> error + Uint8Array" where
  "typed_set target source offset =
     (if length target < offset + length source then Inl RangeError
      else Inr (take offset target @ source @ drop (offset + length source) target))"

text \<open>\<^verbatim>\<open>for (const chunk of chunks) { mergedBuffer.set(chunk, offset); offset += chunk.length; }\<close>\<close>

fun merge_loop :: "Uint8Array list \<Rightarrow> Uint8Array \<Rightarrow> nat \<Rightarrow> error + Uint8Array" where
  "merge_loop [] mergedBuffer offset = Inr mergedBuffer"
| "merge_loop (chunk # rest) mergedBuffer offset =
     (case typed_set mergedBuffer chunk offset of
        Inl e \<Rightarrow> Inl e
      | Inr m \<Rightarrow> merge_loop rest m (offset + length chunk))"

text \<open>Lines 121 to 126, from \<^verbatim>\<open>new Uint8Array(received)\<close>, which is filled with zeros.\<close>

definition merge_chunks :: "Uint8Array list \<Rightarrow> nat \<Rightarrow> error + Uint8Array" where
  "merge_chunks cs n = merge_loop cs (replicate n 0) 0"

section \<open>Handing the file to the user\<close>

text \<open>
  The part of the browser the save-as flow touches: the store of object URLs (each live
  URL with the bytes of its blob, the newest first; \<^verbatim>\<open>URL.revokeObjectURL\<close> is what takes
  an entry out), the counter that names the next URL, the anchors under \<^verbatim>\<open>document.body\<close>,
  and the save-as flows triggered so far, each with its suggested name and bytes.
\<close>

record anchor =
  href :: nat
  download :: string

record browser =
  object_urls :: "(nat \<times> Uint8Array) list"
  next_url :: nat
  document_body :: "anchor list"
  saved_files :: "(string \<times> Uint8Array) list"

definition createObjectURL :: "Uint8Array \<Rightarrow> browser \<Rightarrow> nat \<times> browser" where
  "createObjectURL blob b =
     (next_url b,
      b\<lparr>object_urls := (next_url b, blob) # object_urls b, next_url := next_url b + 1\<rparr>)"

definition appendChild :: "anchor \<Rightarrow> browser \<Rightarrow> browser" where
  "appendChild a b = b\<lparr>document_body := document_body b @ [a]\<rparr>"

text \<open>
  \<^verbatim>\<open>a.click()\<close> on an anchor with a \<^verbatim>\<open>download\<close> attribute saves what its \<^verbatim>\<open>href\<close> names;
  an object URL that is not in the store names nothing.
\<close>

definition click :: "anchor \<Rightarrow> browser \<Rightarrow> browser" where
  "click a b =
     (case map_of (object_urls b) (href a) of
        None \<Rightarrow> b
      | Some blob \<Rightarrow> b\<lparr>saved_files := saved_files b @ [(download a, blob)]\<rparr>)"

text \<open>\<^verbatim>\<open>a.remove()\<close>: the element leaves its parent. It is the child appended last.\<close>

definition remove_element :: "anchor \<Rightarrow> browser \<Rightarrow> browser" where
  "remove_element a b = b\<lparr>document_body := rev (remove1 a (rev (document_body b)))\<rparr>"

text \<open>
  Lines 127 to 134 of the DFS page and 81 to 87 of the No-DFS page, the same statements:
  \<^verbatim>\<open>createObjectURL(blob)\<close>, a new anchor with \<^verbatim>\<open>href\<close> and \<^verbatim>\<open>download\<close> set,
  \<^verbatim>\<open>appendChild\<close>, \<^verbatim>\<open>click\<close>, \<^verbatim>\<open>remove\<close>.
\<close>

definition artifact_save :: "Uint8Array \<Rightarrow> string \<Rightarrow> browser \<Rightarrow> browser" where
  "artifact_save blob name b =
     (let (url, b1) = createObjectURL blob b;
          a = \<lparr>href = url, download = name\<rparr>
      in remove_element a (click a (appendChild a b1)))"

section \<open>The handlers\<close>

text \<open>
  What a download handler leaves behind: the page state, the browser, the requests sent,
  the arguments of all calls of \<^verbatim>\<open>setDownloadProgress\<close> in order, the error that the
  \<^verbatim>\<open>catch\<close> block caught, if the \<^verbatim>\<open>try\<close> block threw, and the error that left the
  handler, if a statement outside the \<^verbatim>\<open>try\<close> block threw: the handler's promise then
  rejects, and nothing handles it.
\<close>

record 's download_result =
  final_state :: 's
  final_browser :: browser
  sent :: "request list"
  progress_updates :: "rat list list"
  caught :: "error option"
  escaped :: "error option"

text \<open>
  \<^verbatim>\<open>new Array(totalChunks).fill(0)\<close>: an array length is below \<^verbatim>\<open>2^32\<close>; for a larger
  argument the constructor throws \<^verbatim>\<open>RangeError: Invalid array length\<close>.
\<close>

definition new_Array_fill_0 :: "nat \<Rightarrow> error + rat list" where
  "new_Array_fill_0 n = (if n < 2 ^ 32 then Inr (replicate n 0) else Inl RangeError)"

text \<open>
  The \<^verbatim>\<open>try\<close> block of \<^verbatim>\<open>handleDownload\<close> (lines 88 to 134): the error thrown, if any, and
  the state, the browser and the progress updates at that point. \<open>elapsed\<close> is
  \<^verbatim>\<open>endTime - startTime\<close>.
\<close>

definition download_try ::
  "rat list \<Rightarrow> FileRecord \<Rightarrow> int \<Rightarrow> download_response promise \<Rightarrow> dfs_state \<Rightarrow> browser
     \<Rightarrow> error option \<times> dfs_state \<times> browser \<times> rat list list" where
  "download_try captured fileRecord elapsed net s b =
     (case net of
        Rejected \<Rightarrow> (Some Rejection, s, b, [])
      | Resolved response \<Rightarrow>
          (case body response of
             None \<Rightarrow> (Some (Error ''No response body for download''), s, b, [])
           | Some reader \<Rightarrow>
               (let totalSize = totalSize_of (content_length response);
                    v = read_loop captured (total_chunks fileRecord) totalSize (segments reader)
                          \<lparr>chunks = [], received = 0, progress_cell = downloadProgress s,
                           updates = []\<rparr>;
                    s1 = s\<lparr>downloadProgress := progress_cell v\<rparr>
                in (case ending reader of
                      ReadFails \<Rightarrow> (Some Rejection, s1, b, updates v)
                    | Done \<Rightarrow>
                        (let s2 = s1\<lparr>downloadTime := Some elapsed\<rparr>
                         in (case merge_chunks (chunks v) (received v) of
                               Inl e \<Rightarrow> (Some e, s2, b, updates v)
                             | Inr mergedBuffer \<Rightarrow>
                                 (None, s2,
                                  artifact_save mergedBuffer (filename fileRecord) b,
                                  updates v)))))))"

text \<open>
  \<^verbatim>\<open>handleDownload\<close> of the DFS page. \<open>s\<close> is the state the closure holds, \<open>startTime\<close> and
  \<open>endTime\<close> are the two readings of \<^verbatim>\<open>Date.now()\<close>, \<open>net\<close> is the outcome of the \<^verbatim>\<open>fetch\<close>.
  Lines 79 to 86 stand before the \<^verbatim>\<open>try\<close> block: when the array of line 82 cannot be
  made, the error leaves the handler, after \<^verbatim>\<open>setDownloadingFile(fileRecord)\<close> and before
  any request.
\<close>

definition handleDownload ::
  "dfs_state \<Rightarrow> FileRecord \<Rightarrow> int \<Rightarrow> int \<Rightarrow> download_response promise \<Rightarrow> browser
     \<Rightarrow> dfs_state download_result" where
  "handleDownload s fileRecord startTime endTime net b =
     (let s0 = s\<lparr>downloadingFile := Some fileRecord\<rparr>;
          totalChunks = total_chunks fileRecord
      in case new_Array_fill_0 totalChunks of
           Inl e \<Rightarrow>
             \<lparr>final_state = s0, final_browser = b, sent = [], progress_updates = [],
              caught = None, escaped = Some e\<rparr>
         | Inr zeros \<Rightarrow>
             (let s1 = s0\<lparr>downloadProgress := zeros,
                         downloadTime := None,
                         errorMessage := ''''\<rparr>;
                  (thrown, s2, b2, ups) =
                     download_try (downloadProgress s) fileRecord (endTime - startTime) net s1 b;
                  s3 = (case thrown of
                          None \<Rightarrow> s2
                        | Some e \<Rightarrow> s2\<lparr>errorMessage := ''Download failed''\<rparr>);
                  s4 = s3\<lparr>downloadingFile := None, downloadProgress := []\<rparr>
              in \<lparr>final_state = s4, final_browser = b2,
                  sent = [GET (download_path DFS) (Some (file_id fileRecord))],
                  progress_updates = [zeros] @ ups @ [[]],
                  caught = thrown, escaped = None\<rparr>))"

text \<open>
  \<^verbatim>\<open>res.blob()\<close> reads the whole body: it resolves to the bytes of all segments when the
  stream ends, and rejects when a read fails.
\<close>

definition blob_of :: "body_stream \<Rightarrow> Uint8Array promise" where
  "blob_of st = (case ending st of Done \<Rightarrow> Resolved (concat (segments st)) | ReadFails \<Rightarrow> Rejected)"

text \<open>\<^verbatim>\<open>handleDownload\<close> of the No-DFS page: no progress cell, no merge loop.\<close>

definition nodfs_handleDownload ::
  "NoDFSFile page_state \<Rightarrow> NoDFSFile \<Rightarrow> int \<Rightarrow> int \<Rightarrow> download_response promise \<Rightarrow> browser
     \<Rightarrow> NoDFSFile page_state download_result" where
  "nodfs_handleDownload s file startTime endTime net b =
     (let s1 = s\<lparr>errorMessage := ''''\<rparr>;
          (thrown, s2, b2) =
             (case net of
                Rejected \<Rightarrow> (Some Rejection, s1, b)
              | Resolved res \<Rightarrow>
                  (case body res of
                     None \<Rightarrow> (Some (Error ''No response body for download''), s1, b)
                   | Some st \<Rightarrow>
                       (case blob_of st of
                          Rejected \<Rightarrow> (Some Rejection, s1, b)
                        | Resolved blob \<Rightarrow>
                            (None, s1\<lparr>downloadTime := Some (endTime - startTime)\<rparr>,
                             artifact_save blob (filename file) b))));
          s3 = (case thrown of None \<Rightarrow> s2 | Some e \<Rightarrow> s2\<lparr>errorMessage := ''Download failed''\<rparr>)
      in \<lparr>final_state = s3, final_browser = b2,
          sent = [GET (download_path NoDFS) (Some (file_id file))],
          progress_updates = [],
          caught = thrown, escaped = None\<rparr>)"

text \<open>The \<^verbatim>\<open>useState\<close> initial values of the DFS page, and a browser with nothing in it.\<close>

definition initial_state :: dfs_state where
  "initial_state =
     \<lparr>fileList = [], selectedFile = None, uploading = False, downloadTime = None,
      errorMessage = '''', downloadProgress = [], downloadingFile = None\<rparr>"

definition empty_browser :: browser where
  "empty_browser = \<lparr>object_urls = [], next_url = 0, document_body = [], saved_files = []\<rparr>"

subsection \<open>List, upload, delete\<close>

text \<open>
  The three statements that open the \<^verbatim>\<open>try\<close> block of \<^verbatim>\<open>fetchFiles\<close>, \<^verbatim>\<open>handleUploadSubmit\<close>
  and \<^verbatim>\<open>handleDelete\<close>: await the \<^verbatim>\<open>fetch\<close>, throw \<^verbatim>\<open>new Error(msg)\<close> on \<^verbatim>\<open>!res.ok\<close>, await
  \<^verbatim>\<open>res.json()\<close>.
\<close>

definition fetch_json :: "'d response promise \<Rightarrow> string \<Rightarrow> error + 'd" where
  "fetch_json net msg =
     (case net of
        Rejected \<Rightarrow> Inl Rejection
      | Resolved res \<Rightarrow>
          (if \<not> ok res then Inl (Error msg)
           else (case json res of Rejected \<Rightarrow> Inl Rejection | Resolved data \<Rightarrow> Inr data)))"

text \<open>\<^verbatim>\<open>fetchFiles\<close>, the same on both pages but for the path.\<close>

definition fetchFiles ::
  "pipeline \<Rightarrow> ('f, 'z) page_state_scheme \<Rightarrow> 'f list response promise
     \<Rightarrow> ('f, 'z) page_state_scheme \<times> request list" where
  "fetchFiles p s net =
     ((case fetch_json net ''Failed to fetch file list'' of
         Inr files \<Rightarrow> s\<lparr>fileList := files\<rparr>
       | Inl e \<Rightarrow> s\<lparr>errorMessage := ''Error fetching file list''\<rparr>),
      [GET (list_path p) None])"

text \<open>
  \<^verbatim>\<open>handleUploadSubmit\<close>: \<open>up\<close> is the outcome of the upload request and \<open>ls\<close> that of the
  list request of the \<^verbatim>\<open>fetchFiles\<close> call after it.
\<close>

definition handleUploadSubmit ::
  "pipeline \<Rightarrow> ('f, 'z) page_state_scheme \<Rightarrow> 'd response promise \<Rightarrow> 'f list response promise
     \<Rightarrow> ('f, 'z) page_state_scheme \<times> request list" where
  "handleUploadSubmit p s up ls =
     (case selectedFile s of
        None \<Rightarrow> (s, [])
      | Some file \<Rightarrow>
          (let s1 = s\<lparr>uploading := True, errorMessage := ''''\<rparr>;
               (s2, reqs) =
                  (case fetch_json up ''Upload failed'' of
                     Inr data \<Rightarrow> fetchFiles p (s1\<lparr>selectedFile := None\<rparr>) ls
                   | Inl e \<Rightarrow> (s1\<lparr>errorMessage := ''Upload failed''\<rparr>, []))
           in (s2\<lparr>uploading := False\<rparr>, POST (upload_path p) file # reqs)))"

text \<open>\<^verbatim>\<open>handleDelete\<close>: \<open>del\<close> is the outcome of the delete request, \<open>ls\<close> of the list request.\<close>

definition handleDelete ::
  "pipeline \<Rightarrow> ('f, 'z) page_state_scheme \<Rightarrow> int \<Rightarrow> 'd response promise \<Rightarrow> 'f list response promise
     \<Rightarrow> ('f, 'z) page_state_scheme \<times> request list" where
  "handleDelete p s fileId del ls =
     (let s1 = s\<lparr>errorMessage := ''''\<rparr>;
          (s2, reqs) =
             (case fetch_json del ''Delete failed'' of
                Inr data \<Rightarrow> fetchFiles p s1 ls
              | Inl e \<Rightarrow> (s1\<lparr>errorMessage := ''Delete failed''\<rparr>, []))
      in (s2, DELETE (delete_path p) fileId # reqs))"

section \<open>Reassembly\<close>

lemma read_loop_chunks:
  "chunks (read_loop c n t segs v) = chunks v @ segs"
  by (induction segs arbitrary: v) (simp_all add: Let_def)

lemma read_loop_received:
  "received (read_loop c n t segs v) = received v + sum_list (map length segs)"
  by (induction segs arbitrary: v) (simp_all add: Let_def)

lemma merge_loop_fits:
  "length pre = offset \<Longrightarrow> length mid = sum_list (map length cs) \<Longrightarrow>
   merge_loop cs (pre @ mid @ post) offset = Inr (pre @ concat cs @ post)"
proof (induction cs arbitrary: pre mid offset)
  case Nil
  then show ?case by simp
next
  case (Cons c cs)
  let ?mid' = "drop (length c) mid"
  have fits: "typed_set (pre @ mid @ post) c offset = Inr ((pre @ c) @ ?mid' @ post)"
    using Cons.prems by (simp add: typed_set_def)
  have "merge_loop cs ((pre @ c) @ ?mid' @ post) (offset + length c)
          = Inr ((pre @ c) @ concat cs @ post)"
    using Cons.prems by (intro Cons.IH) simp_all
  with fits show ?case by simp
qed

lemma merge_chunks_concat:
  "n = sum_list (map length cs) \<Longrightarrow> merge_chunks cs n = Inr (concat cs)"
  using merge_loop_fits [of "[]" 0 "replicate n 0" cs "[]"]
  by (simp add: merge_chunks_def)

text \<open>
  Claim C1. For every finite sequence of segments read during one download, the buffer
  that the merge loop builds from the loop variables \<^verbatim>\<open>chunks\<close> and \<^verbatim>\<open>received\<close> at stream
  end is the concatenation of the segments in arrival order (no write is out of range),
  and its length, which is \<^verbatim>\<open>received\<close>, is the sum of the segment lengths.
\<close>

theorem reassembly_is_concatenation:
  "merge_chunks
     (chunks (read_loop captured totalChunks totalSize segs
        \<lparr>chunks = [], received = 0, progress_cell = p, updates = []\<rparr>))
     (received (read_loop captured totalChunks totalSize segs
        \<lparr>chunks = [], received = 0, progress_cell = p, updates = []\<rparr>))
   = Inr (concat segs)
   \<and> length (concat segs) = sum_list (map length segs)
   \<and> received (read_loop captured totalChunks totalSize segs
        \<lparr>chunks = [], received = 0, progress_cell = p, updates = []\<rparr>)
     = sum_list (map length segs)"
  by (simp add: read_loop_chunks read_loop_received merge_chunks_concat length_concat)

section \<open>Rounding to binary64\<close>

lemma round_half_even_of_int: "round_half_even (of_int n) = n"
  by (simp add: round_half_even_def)

lemma round_half_even_bounds: "\<lfloor>q\<rfloor> \<le> round_half_even q \<and> round_half_even q \<le> \<lfloor>q\<rfloor> + 1"
  by (simp add: round_half_even_def Let_def)

lemma round_half_even_mono:
  assumes "q \<le> q'"
  shows "round_half_even q \<le> round_half_even q'"
proof (cases "\<lfloor>q\<rfloor> = \<lfloor>q'\<rfloor>")
  case True
  with assms have "q - of_int \<lfloor>q\<rfloor> \<le> q' - of_int \<lfloor>q'\<rfloor>" by simp
  with True show ?thesis
    by (auto simp: round_half_even_def Let_def)
next
  case False
  with assms have "\<lfloor>q\<rfloor> + 1 \<le> \<lfloor>q'\<rfloor>"
    using floor_mono [of q q'] by linarith
  with round_half_even_bounds [of q] round_half_even_bounds [of q'] show ?thesis
    by linarith
qed

lemma binary_exponent_bounds:
  assumes "0 < x"
  shows "2 powi binary_exponent x \<le> x \<and> x < 2 powi (binary_exponent x + 1)"
proof -
  obtain a b where ab: "quotient_of x = (a, b)" by (cases "quotient_of x")
  then have b: "0 < b" and x: "x = of_int a / of_int b"
    using quotient_of_denom_pos [of x a b] quotient_of_div [of x a b] by simp_all
  with assms have a: "0 < a" by (simp add: zero_less_divide_iff)
  define ba where "ba = bitlen a"
  define bb where "bb = bitlen b"
  have ba1: "1 \<le> ba" and bb1: "1 \<le> bb"
    using a b by (simp_all add: ba_def bb_def bitlen_alt_def)
  have "2 ^ nat (ba - 1) \<le> a" "a < 2 ^ nat ba" "2 ^ nat (bb - 1) \<le> b" "b < 2 ^ nat bb"
    using bitlen_bounds [OF a] bitlen_bounds [OF b] by (simp_all add: ba_def bb_def)
  then have "(2::rat) ^ nat (ba - 1) \<le> of_int a" "(of_int a :: rat) < 2 ^ nat ba"
       "(2::rat) ^ nat (bb - 1) \<le> of_int b" "(of_int b :: rat) < 2 ^ nat bb"
    by (metis of_int_le_iff of_int_less_iff of_int_numeral of_int_power)+
  then have A: "(2::rat) powi (ba - 1) \<le> of_int a" "(of_int a :: rat) < 2 powi ba"
       and B: "(2::rat) powi (bb - 1) \<le> of_int b" "(of_int b :: rat) < 2 powi bb"
    using ba1 bb1 by (simp_all add: power_int_def)
  have bpos: "(0::rat) < of_int b" using b by simp
  have up: "x < 2 powi (ba - bb + 1)"
  proof -
    have "x < 2 powi ba / of_int b" unfolding x using A(2) bpos by (simp add: divide_strict_right_mono)
    also have "\<dots> \<le> 2 powi ba / 2 powi (bb - 1)"
      using B(1) bpos by (intro divide_left_mono mult_pos_pos) simp_all
    also have "\<dots> = 2 powi (ba - bb + 1)"
      by (simp add: power_int_diff [symmetric] algebra_simps)
    finally show ?thesis .
  qed
  have lo: "2 powi (ba - bb - 1) \<le> x"
  proof -
    have "(2::rat) powi (ba - bb - 1) = 2 powi (ba - 1) / 2 powi bb"
      by (simp add: power_int_diff [symmetric] algebra_simps)
    also have "\<dots> \<le> of_int a / 2 powi bb"
      using A(1) by (intro divide_right_mono) simp_all
    also have "\<dots> \<le> of_int a / of_int b"
      using B(2) a bpos by (intro divide_left_mono mult_pos_pos) simp_all
    finally show ?thesis unfolding x .
  qed
  show ?thesis
  proof (cases "2 powi (ba - bb) \<le> x")
    case True
    then have "binary_exponent x = ba - bb"
      by (simp add: binary_exponent_def ab ba_def bb_def)
    with True up show ?thesis by simp
  next
    case False
    then have "binary_exponent x = ba - bb - 1"
      by (simp add: binary_exponent_def ab ba_def bb_def)
    with False lo show ?thesis by simp
  qed
qed

lemma two_powi_less_cancel:
  assumes "(2::rat) powi m < 2 powi n"
  shows "m < n"
proof (rule ccontr)
  assume "\<not> m < n"
  then have "(2::rat) powi n \<le> 2 powi m"
    by (intro power_int_increasing) simp_all
  with assms show False by simp
qed

lemma binary_exponent_mono:
  assumes "0 < x" and "x \<le> y"
  shows "binary_exponent x \<le> binary_exponent y"
proof -
  have "(2::rat) powi binary_exponent x \<le> x"
    using binary_exponent_bounds [OF assms(1)] by simp
  also have "x \<le> y" by fact
  also have "y < 2 powi (binary_exponent y + 1)"
    using binary_exponent_bounds [of y] assms by simp
  finally have "binary_exponent x < binary_exponent y + 1"
    by (rule two_powi_less_cancel)
  then show ?thesis by simp
qed

lemma binary_exponent_unique:
  assumes "2 powi e \<le> x" and "x < 2 powi (e + 1)"
  shows "binary_exponent x = e"
proof -
  have pos: "0 < x"
    using assms(1) zero_less_power_int [of "2::rat" e] by linarith
  note b = binary_exponent_bounds [OF pos]
  have "(2::rat) powi e < 2 powi (binary_exponent x + 1)"
    using assms(1) b by linarith
  then have 1: "e < binary_exponent x + 1" by (rule two_powi_less_cancel)
  have "(2::rat) powi binary_exponent x < 2 powi (e + 1)"
    using assms(2) b by linarith
  then have 2: "binary_exponent x < e + 1" by (rule two_powi_less_cancel)
  from 1 2 show ?thesis by simp
qed

lemma round64_alt: "round64 x = of_int (round_half_even (x / 2 powi ulp_exponent x)) * 2 powi ulp_exponent x"
  by (simp add: round64_def Let_def)

lemma round64_zero: "round64 0 = 0"
  by (simp add: round64_def round_half_even_def Let_def)

lemma round_on_grid_mono:
  fixes u :: rat
  assumes "0 < u" and "x \<le> y"
  shows "of_int (round_half_even (x / u)) * u \<le> of_int (round_half_even (y / u)) * u"
proof -
  have "x / u \<le> y / u" using assms by (simp add: divide_right_mono)
  then have "round_half_even (x / u) \<le> round_half_even (y / u)"
    by (rule round_half_even_mono)
  then have "(of_int (round_half_even (x / u)) :: rat) \<le> of_int (round_half_even (y / u))"
    by simp
  then show ?thesis using assms(1) by (simp add: mult_right_mono)
qed

lemma round_power_on_grid:
  assumes "k \<le> e"
  shows "of_int (round_half_even (2 powi e / 2 powi k)) * 2 powi k = (2::rat) powi e"
proof -
  have "(2::rat) powi e / 2 powi k = 2 powi (e - k)"
    by (simp add: power_int_diff)
  also have "\<dots> = of_int (2 ^ nat (e - k))"
    using assms by (simp add: power_int_def)
  finally have "round_half_even (2 powi e / 2 powi k) = 2 ^ nat (e - k)"
    by (simp only: round_half_even_of_int)
  then have "of_int (round_half_even (2 powi e / 2 powi k)) * 2 powi k
               = (2::rat) powi (e - k) * 2 powi k"
    using assms by (simp add: power_int_def)
  also have "\<dots> = 2 powi e"
    by (simp add: power_int_add [symmetric])
  finally show ?thesis .
qed

lemma round64_mono:
  assumes "0 \<le> x" and "x \<le> y"
  shows "round64 x \<le> round64 y"
proof (cases "x = 0")
  case True
  have "0 \<le> y / 2 powi ulp_exponent y" using assms by simp
  then have "round_half_even 0 \<le> round_half_even (y / 2 powi ulp_exponent y)"
    by (rule round_half_even_mono)
  then have "0 \<le> round_half_even (y / 2 powi ulp_exponent y)"
    by (simp add: round_half_even_def)
  then show ?thesis
    using True by (simp add: round64_zero round64_alt [of y])
next
  case False
  with assms have x: "0 < x" and y: "0 < y" by simp_all
  have ex: "binary_exponent x \<le> binary_exponent y"
    using x assms(2) by (rule binary_exponent_mono)
  then have le: "ulp_exponent x \<le> ulp_exponent y"
    using x y by (simp add: ulp_exponent_def)
  show ?thesis
  proof (cases "ulp_exponent x = ulp_exponent y")
    case True
    then show ?thesis
      using round_on_grid_mono [of "2 powi ulp_exponent y" x y] assms(2)
      by (simp add: round64_alt)
  next
    case False
    with le have lt: "ulp_exponent x < ulp_exponent y" by simp
    define p :: rat where "p = 2 powi binary_exponent y"
    have uy: "ulp_exponent y = binary_exponent y - 52"
      using lt x y by (simp add: ulp_exponent_def max_def split: if_splits)
    have ex': "binary_exponent x < binary_exponent y"
      using lt uy x by (simp add: ulp_exponent_def max_def split: if_splits)
    have "x < 2 powi (binary_exponent x + 1)"
      using binary_exponent_bounds [OF x] by simp
    also have "\<dots> \<le> p"
      unfolding p_def using ex' by (intro power_int_increasing) simp_all
    finally have xp: "x \<le> p" by simp
    have py: "p \<le> y"
      unfolding p_def using binary_exponent_bounds [OF y] by simp
    have kx: "ulp_exponent x \<le> binary_exponent y" using lt uy by simp
    have ky: "ulp_exponent y \<le> binary_exponent y" using uy by simp
    have "round64 x \<le> of_int (round_half_even (p / 2 powi ulp_exponent x)) * 2 powi ulp_exponent x"
      unfolding round64_alt [of x] using xp by (intro round_on_grid_mono) simp_all
    also have "\<dots> = p"
      unfolding p_def by (rule round_power_on_grid [OF kx])
    also have "p = of_int (round_half_even (p / 2 powi ulp_exponent y)) * 2 powi ulp_exponent y"
      unfolding p_def by (rule round_power_on_grid [OF ky, symmetric])
    also have "\<dots> \<le> round64 y"
      unfolding round64_alt [of y] using py by (intro round_on_grid_mono) simp_all
    finally show ?thesis .
  qed
qed

lemma round64_one: "round64 1 = 1"
  by code_simp

lemma round64_hundred: "round64 100 = 100"
  by code_simp

lemma round64_nonneg: "0 \<le> x \<Longrightarrow> 0 \<le> round64 x"
  using round64_mono [of 0 x] by (simp add: round64_zero)

section \<open>Progress updates\<close>

lemma js_store_length: "i \<le> length xs \<Longrightarrow> i + 1 \<le> length (js_store xs i v)"
  by (simp add: js_store_def)

lemma assign_slots_closed:
  "i \<le> length xs \<Longrightarrow> i \<le> n \<Longrightarrow>
   assign_slots i n v xs = take i xs @ replicate (n - i) (min 100 v) @ drop n xs"
proof (induction i n v xs rule: assign_slots.induct)
  case (1 i n v xs)
  show ?case
  proof (cases "i < n")
    case False
    with "1.prems" show ?thesis by (subst assign_slots.simps) simp
  next
    case True
    let ?ys = "js_store xs i (min 100 v)"
    have len: "i + 1 \<le> length ?ys" using "1.prems" by (intro js_store_length) simp
    have step: "assign_slots (i + 1) n v ?ys
                  = take (i + 1) ?ys @ replicate (n - (i + 1)) (min 100 v) @ drop n ?ys"
      using True len by (intro "1.IH") simp_all
    have tk: "take (i + 1) ?ys = take i xs @ [min 100 v]"
      using "1.prems" by (simp add: js_store_def take_Suc_conv_app_nth upd_conv_take_nth_drop)
    have dr: "drop n ?ys = drop n xs"
      using True "1.prems" by (simp add: js_store_def)
    have rp: "replicate (n - i) (min 100 v) = min 100 v # replicate (n - (i + 1)) (min 100 v)"
      using True by (cases "n - i") simp_all
    show ?thesis
      using True step tk dr rp by (subst assign_slots.simps) simp
  qed
qed

lemma distribute_closed:
  "distribute captured n v = replicate n (min 100 v) @ drop n captured"
  by (simp add: distribute_def assign_slots_closed)

lemma read_loop_updates:
  "updates (read_loop c n t segs v)
     = updates v @ map (\<lambda>r. distribute c n (overallProgress r t)) (received_after (received v) segs)"
  by (induction segs arbitrary: v) (simp_all add: Let_def)

lemma read_loop_progress_cell:
  "progress_cell (read_loop c n t segs v)
     = last (progress_cell v # map (\<lambda>r. distribute c n (overallProgress r t)) (received_after (received v) segs))"
  by (induction segs arbitrary: v) (simp_all add: Let_def)

lemma totalSize_of_pos: "0 < totalSize_of h"
  by (cases h) (simp_all add: totalSize_of_def Number_header_def)

lemma overallProgress_le_100: "overallProgress r t \<le> 100"
  by (simp add: overallProgress_def)

lemma overallProgress_nonneg:
  assumes "0 < t"
  shows "0 \<le> overallProgress r t"
proof -
  have "0 \<le> of_nat r / t" using assms by simp
  then have "0 \<le> round64 (of_nat r / t) * 100"
    using round64_nonneg [of "of_nat r / t"] by simp
  then have "0 \<le> round64 (round64 (of_nat r / t) * 100)"
    by (rule round64_nonneg)
  then show ?thesis by (simp add: overallProgress_def)
qed

lemma overallProgress_mono:
  assumes "0 < t" and "r \<le> r'"
  shows "overallProgress r t \<le> overallProgress r' t"
proof -
  have q0: "0 \<le> of_nat r / t" using assms(1) by simp
  have "(of_nat r :: rat) \<le> of_nat r'" using assms(2) by simp
  then have q: "(of_nat r :: rat) / t \<le> of_nat r' / t"
    using assms(1) by (simp add: divide_right_mono)
  have "round64 (of_nat r / t) \<le> round64 (of_nat r' / t)"
    using q0 q by (rule round64_mono)
  then have m: "round64 (of_nat r / t) * 100 \<le> round64 (of_nat r' / t) * 100"
    by simp
  have "0 \<le> round64 (of_nat r / t) * 100"
    using round64_nonneg [OF q0] by simp
  then have "round64 (round64 (of_nat r / t) * 100) \<le> round64 (round64 (of_nat r' / t) * 100)"
    using m by (rule round64_mono)
  then show ?thesis by (simp add: overallProgress_def min_le_iff_disj)
qed

lemma distribute_nth:
  "i < n \<Longrightarrow> distribute c n (overallProgress r t) ! i = overallProgress r t"
  by (simp add: distribute_closed nth_append overallProgress_le_100)

lemma distribute_idle:
  "length c \<le> n \<Longrightarrow> distribute c n (overallProgress r t) = replicate n (overallProgress r t)"
  by (simp add: distribute_closed overallProgress_le_100)

lemma received_after_ge: "x \<in> set (received_after r segs) \<Longrightarrow> r \<le> x"
  by (induction segs arbitrary: r) fastforce+

lemma received_after_sorted: "sorted (received_after r segs)"
  by (induction segs arbitrary: r) (auto dest: received_after_ge)

lemma received_after_last:
  "segs \<noteq> [] \<Longrightarrow> last (received_after r segs) = r + sum_list (map length segs)"
proof (induction segs arbitrary: r)
  case Nil
  then show ?case by simp
next
  case (Cons val rest)
  show ?case
  proof (cases rest)
    case Nil
    then show ?thesis by simp
  next
    case (Cons val' rest')
    then have "last (received_after (r + length val) rest)
                 = r + length val + sum_list (map length rest)"
      by (intro Cons.IH) simp
    with Cons show ?thesis by simp
  qed
qed

lemma fractions_sorted:
  assumes "0 < t" and "i < n"
  shows "sorted (map (\<lambda>u. u ! i)
           (replicate n 0 # map (\<lambda>r. distribute c n (overallProgress r t)) (received_after 0 segs)))"
proof -
  let ?rs = "received_after 0 segs"
  have eq: "map ((\<lambda>u. u ! i) \<circ> (\<lambda>r. distribute c n (overallProgress r t))) ?rs
              = map (\<lambda>r. overallProgress r t) ?rs"
    using assms(2) by (simp add: distribute_nth)
  have "sorted_wrt (\<lambda>x y. x \<le> y) ?rs"
    using received_after_sorted [of 0 segs] by simp
  then have "sorted_wrt (\<lambda>x y. overallProgress x t \<le> overallProgress y t) ?rs"
    by (rule sorted_wrt_mono_rel [rotated]) (simp add: overallProgress_mono assms(1))
  then have "sorted (map (\<lambda>r. overallProgress r t) ?rs)"
    by (simp add: sorted_map)
  then show ?thesis
    using assms by (simp add: eq overallProgress_nonneg)
qed

section \<open>The download handler, case by case\<close>

lemma download_try_stream:
  assumes "body response = Some reader"
  shows "download_try c fr e (Resolved response) s b =
     (let ups = map (\<lambda>r. distribute c (total_chunks fr)
                          (overallProgress r (totalSize_of (content_length response))))
                  (received_after 0 (segments reader));
          s1 = s\<lparr>downloadProgress := last (downloadProgress s # ups)\<rparr>
      in case ending reader of
           ReadFails \<Rightarrow> (Some Rejection, s1, b, ups)
         | Done \<Rightarrow> (None, s1\<lparr>downloadTime := Some e\<rparr>,
                    artifact_save (concat (segments reader)) (filename fr) b, ups))"
  using assms
  by (simp add: download_try_def Let_def read_loop_updates read_loop_progress_cell
      read_loop_chunks read_loop_received merge_chunks_concat split: stream_end.splits)

lemma handleDownload_range_error:
  "\<not> total_chunks fr < 2 ^ 32 \<Longrightarrow>
   handleDownload s fr st et net b =
     \<lparr>final_state = s\<lparr>downloadingFile := Some fr\<rparr>,
      final_browser = b, sent = [], progress_updates = [],
      caught = None, escaped = Some RangeError\<rparr>"
  by (simp add: handleDownload_def new_Array_fill_0_def Let_def)

lemma handleDownload_rejected:
  "total_chunks fr < 2 ^ 32 \<Longrightarrow>
   handleDownload s fr st et Rejected b =
     \<lparr>final_state = s\<lparr>downloadingFile := None, downloadProgress := [], downloadTime := None,
                       errorMessage := ''Download failed''\<rparr>,
      final_browser = b,
      sent = [GET (download_path DFS) (Some (file_id fr))],
      progress_updates = [replicate (total_chunks fr) 0, []],
      caught = Some Rejection, escaped = None\<rparr>"
  by (simp add: handleDownload_def new_Array_fill_0_def download_try_def Let_def)

lemma handleDownload_no_body:
  "total_chunks fr < 2 ^ 32 \<Longrightarrow> body response = None \<Longrightarrow>
   handleDownload s fr st et (Resolved response) b =
     \<lparr>final_state = s\<lparr>downloadingFile := None, downloadProgress := [], downloadTime := None,
                       errorMessage := ''Download failed''\<rparr>,
      final_browser = b,
      sent = [GET (download_path DFS) (Some (file_id fr))],
      progress_updates = [replicate (total_chunks fr) 0, []],
      caught = Some (Error ''No response body for download''), escaped = None\<rparr>"
  by (simp add: handleDownload_def new_Array_fill_0_def download_try_def Let_def)

lemma handleDownload_read_fails:
  "total_chunks fr < 2 ^ 32 \<Longrightarrow> body response = Some reader \<Longrightarrow> ending reader = ReadFails \<Longrightarrow>
   handleDownload s fr st et (Resolved response) b =
     \<lparr>final_state = s\<lparr>downloadingFile := None, downloadProgress := [], downloadTime := None,
                       errorMessage := ''Download failed''\<rparr>,
      final_browser = b,
      sent = [GET (download_path DFS) (Some (file_id fr))],
      progress_updates =
        [replicate (total_chunks fr) 0]
        @ map (\<lambda>r. distribute (downloadProgress s) (total_chunks fr)
                     (overallProgress r (totalSize_of (content_length response))))
            (received_after 0 (segments reader))
        @ [[]],
      caught = Some Rejection, escaped = None\<rparr>"
  by (simp add: handleDownload_def new_Array_fill_0_def download_try_stream Let_def)

lemma handleDownload_done:
  "total_chunks fr < 2 ^ 32 \<Longrightarrow> body response = Some reader \<Longrightarrow> ending reader = Done \<Longrightarrow>
   handleDownload s fr st et (Resolved response) b =
     \<lparr>final_state = s\<lparr>downloadingFile := None, downloadProgress := [],
                       downloadTime := Some (et - st), errorMessage := ''''\<rparr>,
      final_browser = artifact_save (concat (segments reader)) (filename fr) b,
      sent = [GET (download_path DFS) (Some (file_id fr))],
      progress_updates =
        [replicate (total_chunks fr) 0]
        @ map (\<lambda>r. distribute (downloadProgress s) (total_chunks fr)
                     (overallProgress r (totalSize_of (content_length response))))
            (received_after 0 (segments reader))
        @ [[]],
      caught = None, escaped = None\<rparr>"
  by (simp add: handleDownload_def new_Array_fill_0_def download_try_stream Let_def)

lemma replicate_2: "replicate 2 x = [x, x]"
  by (simp add: numeral_2_eq_2)

lemma replicate_4: "replicate 4 x = [x, x, x, x]"
  by (simp add: eval_nat_numeral)

text \<open>
  Values of line 110 in concrete cases, with the byte count as the list length gives it:
  1 of 3 bytes is 33.33333333333333, 3 of 10 bytes is 30, 5 of 10 bytes is 50.
\<close>

lemma overallProgress_1_of_3:
  "overallProgress (Suc 0) 3 = 2345624805922133 / 70368744177664"
  by code_simp

lemma overallProgress_3_of_10:
  "overallProgress (Suc (Suc (Suc 0))) 10 = 30"
  by code_simp

lemma overallProgress_5_of_10:
  "overallProgress (Suc (Suc (Suc (Suc (Suc 0))))) 10 = 50"
  by code_simp

lemma overallProgress_full:
  assumes "0 < t" and "t \<le> of_nat r"
  shows "overallProgress r t = 100"
proof -
  have "1 \<le> of_nat r / t" using assms by (simp add: le_divide_eq_1_pos)
  then have "round64 1 \<le> round64 (of_nat r / t)"
    by (intro round64_mono) simp_all
  then have "1 * 100 \<le> round64 (of_nat r / t) * 100"
    unfolding round64_one by (intro mult_right_mono) simp_all
  then have "round64 100 \<le> round64 (round64 (of_nat r / t) * 100)"
    by (intro round64_mono) simp_all
  then show ?thesis by (simp add: overallProgress_def round64_hundred)
qed

lemma received_after_Nil_iff: "received_after r segs = [] \<longleftrightarrow> segs = []"
  by (cases segs) simp_all

section \<open>Claims about progress\<close>

text \<open>
  Claim C3, as amended. For every received-byte count, declared total and chunk count,
  when the progress array that the handler's closure holds has at most \<^verbatim>\<open>total_chunks\<close>
  entries (it is empty whenever no download is in flight), the handler first sets an array
  of \<^verbatim>\<open>total_chunks\<close> zeros, then after each segment an array of length \<^verbatim>\<open>total_chunks\<close>
  in which every entry is \<^verbatim>\<open>min(100, received / totalSize * 100)\<close> as binary64 arithmetic
  gives it, the quotient rounded and then the product, and at last the empty array. (When
  the array of zeros cannot be made, nothing is set.)
\<close>

theorem progress_update_arrays:
  assumes "length (downloadProgress s) \<le> total_chunks fileRecord"
      and "net = Resolved response"
      and "body response = Some reader"
  shows "progress_updates (handleDownload s fileRecord startTime endTime net b) =
           (if total_chunks fileRecord < 2 ^ 32
            then [replicate (total_chunks fileRecord) 0]
               @ map (\<lambda>received. replicate (total_chunks fileRecord)
                       (min 100 (round64 (round64
                          (of_nat received / totalSize_of (content_length response)) * 100))))
                   (received_after 0 (segments reader))
               @ [[]]
            else [])"
proof (cases "total_chunks fileRecord < 2 ^ 32")
  case False
  then show ?thesis by (simp add: handleDownload_range_error)
next
  case True
  have "distribute (downloadProgress s) (total_chunks fileRecord) (overallProgress r t)
          = replicate (total_chunks fileRecord) (min 100 (round64 (round64 (of_nat r / t) * 100)))"
    for r t
    using assms(1) distribute_idle [of "downloadProgress s" "total_chunks fileRecord" r t]
    by (simp add: overallProgress_def)
  then show ?thesis
    using True assms(2,3)
    by (cases "ending reader") (simp_all add: handleDownload_done handleDownload_read_fails)
qed

theorem progress_update_arrays_witness:
  "progress_updates (handleDownload initial_state
      \<lparr>file_id = 7, filename = ''a.bin'', file_hash = ''h'', file_size = 3,
       created_at = ''t'', total_chunks = 2\<rparr> 0 5
      (Resolved \<lparr>body = Some \<lparr>segments = [[7], [8, 9]], ending = Done\<rparr>,
                 content_length = Some 3\<rparr>)
      empty_browser)
   = [[0, 0],
      [2345624805922133 / 70368744177664, 2345624805922133 / 70368744177664],
      [100, 100], []]"
proof -
  have fold: "min 100 (round64 (round64 (of_nat r / t) * 100)) = overallProgress r t" for r t
    by (simp add: overallProgress_def)
  have full: "overallProgress (Suc (Suc (Suc 0))) 3 = 100"
    by (intro overallProgress_full) simp_all
  note inst = progress_update_arrays [of initial_state
      "\<lparr>file_id = 7, filename = ''a.bin'', file_hash = ''h'', file_size = 3,
        created_at = ''t'', total_chunks = 2\<rparr>"
      "Resolved \<lparr>body = Some \<lparr>segments = [[7], [8, 9]], ending = Done\<rparr>,
                 content_length = Some 3\<rparr>"
      "\<lparr>body = Some \<lparr>segments = [[7], [8, 9]], ending = Done\<rparr>, content_length = Some 3\<rparr>"
      "\<lparr>segments = [[7], [8, 9]], ending = Done\<rparr>" 0 5 empty_browser, unfolded fold]
  show ?thesis
    using inst
    by (simp add: initial_state_def totalSize_of_def Number_header_def replicate_2
        overallProgress_1_of_3 full)
qed

text \<open>
  Claim C3 as stated fails when a download is started while another one with more chunks
  is in flight: the closure then holds that download's array, here of three slots, and the
  update for a one-chunk record has three entries, of which only the first is the progress.
  And the entry is the binary64 value, not the exact quotient: 1 of 3 bytes gives
  33.33333333333333, which is not a third of 100.
\<close>

theorem progress_update_arrays_counterexample:
  "progress_updates (handleDownload
      (initial_state\<lparr>downloadProgress := [0, 0, 0],
         downloadingFile := Some \<lparr>file_id = 3, filename = ''b.bin'', file_hash = ''g'',
           file_size = 30, created_at = ''t'', total_chunks = 3\<rparr>\<rparr>)
      \<lparr>file_id = 7, filename = ''a.bin'', file_hash = ''h'', file_size = 10,
       created_at = ''t'', total_chunks = 1\<rparr> 0 5
      (Resolved \<lparr>body = Some \<lparr>segments = [[1, 2, 3, 4, 5]], ending = Done\<rparr>,
                 content_length = Some 10\<rparr>)
      empty_browser)
   = [[0], [50, 0, 0], []]
   \<and> progress_updates (handleDownload initial_state
      \<lparr>file_id = 7, filename = ''a.bin'', file_hash = ''h'', file_size = 3,
       created_at = ''t'', total_chunks = 1\<rparr> 0 5
      (Resolved \<lparr>body = Some \<lparr>segments = [[7]], ending = Done\<rparr>, content_length = Some 3\<rparr>)
      empty_browser)
   = [[0], [2345624805922133 / 70368744177664], []]
   \<and> (2345624805922133 / 70368744177664 :: rat) \<noteq> min 100 (1 / 3 * 100)"
  by (simp add: handleDownload_done distribute_closed initial_state_def
      totalSize_of_def Number_header_def overallProgress_5_of_10 overallProgress_1_of_3)

text \<open>
  Claim C4. Within one download, whatever the segment lengths, the progress values
  reported in any chunk slot, from the initial zero on, never decrease.
\<close>

theorem progress_monotone:
  "i < total_chunks fileRecord \<Longrightarrow>
   sorted (map (\<lambda>u. u ! i)
     (butlast (progress_updates (handleDownload s fileRecord startTime endTime net b))))"
proof (cases "total_chunks fileRecord < 2 ^ 32")
  case False
  then show ?thesis by (simp add: handleDownload_range_error)
next
  case small: True
  assume i: "i < total_chunks fileRecord"
  show ?thesis
  proof (cases net)
    case Rejected
    with small show ?thesis by (simp add: handleDownload_rejected)
  next
    case (Resolved response)
    show ?thesis
    proof (cases "body response")
      case None
      with small Resolved show ?thesis by (simp add: handleDownload_no_body)
    next
      case (Some reader)
      let ?ups = "map (\<lambda>r. distribute (downloadProgress s) (total_chunks fileRecord)
                            (overallProgress r (totalSize_of (content_length response))))
                    (received_after 0 (segments reader))"
      have upd: "progress_updates (handleDownload s fileRecord startTime endTime net b)
                   = (replicate (total_chunks fileRecord) 0 # ?ups) @ [[]]"
        using small Resolved Some
        by (cases "ending reader") (simp_all add: handleDownload_done handleDownload_read_fails)
      show ?thesis
        unfolding upd butlast_snoc
        by (rule fractions_sorted [OF totalSize_of_pos i])
    qed
  qed
qed

theorem progress_monotone_witness:
  "(0::nat) < 2 \<and>
   sorted (map (\<lambda>u. u ! 0)
     (butlast (progress_updates (handleDownload initial_state
      \<lparr>file_id = 7, filename = ''a.bin'', file_hash = ''h'', file_size = 10,
       created_at = ''t'', total_chunks = 2\<rparr> 0 5
      (Resolved \<lparr>body = Some \<lparr>segments = [[1, 2, 3, 4, 5], [6, 7, 8, 9, 10]], ending = Done\<rparr>,
                 content_length = Some 10\<rparr>)
      empty_browser))))"
  using progress_monotone [of 0 "\<lparr>file_id = 7, filename = ''a.bin'', file_hash = ''h'', file_size = 10,
       created_at = ''t'', total_chunks = 2\<rparr>" initial_state 0 5
      "Resolved \<lparr>body = Some \<lparr>segments = [[1, 2, 3, 4, 5], [6, 7, 8, 9, 10]], ending = Done\<rparr>,
                 content_length = Some 10\<rparr>" empty_browser]
  by simp

text \<open>
  Claim C6. The declared total is never zero, so the quotient is always defined; when the
  length header is absent or declares 0 the total is the sentinel 1, and the progress is
  100 as soon as one byte has been received.
\<close>

theorem sentinel_total:
  "0 < totalSize_of h \<and>
   ((h = None \<or> h = Some 0) \<longrightarrow>
      totalSize_of h = 1 \<and>
      (\<forall>received. overallProgress received (totalSize_of h) = (if received = 0 then 0 else 100)))"
proof -
  have sat: "overallProgress r 1 = (if r = 0 then 0 else 100)" for r
  proof (cases "r = 0")
    case True
    then show ?thesis by (simp add: overallProgress_def round64_zero)
  next
    case False
    then have "(1::rat) \<le> of_nat r" by (metis One_nat_def Suc_leI neq0_conv of_nat_1 of_nat_le_iff)
    then have "overallProgress r 1 = 100" by (intro overallProgress_full) simp_all
    with False show ?thesis by simp
  qed
  have one: "h = None \<or> h = Some 0 \<Longrightarrow> totalSize_of h = 1"
    by (auto simp: totalSize_of_def Number_header_def)
  show ?thesis using sat one totalSize_of_pos [of h] by auto
qed

theorem sentinel_total_witness:
  "(None = (None :: nat option) \<or> None = Some (0::nat))
   \<and> totalSize_of None = 1 \<and> overallProgress 5 (totalSize_of None) = 100"
proof -
  have both: "totalSize_of None = 1
      \<and> (\<forall>received. overallProgress received (totalSize_of None)
                = (if received = 0 then 0 else 100))"
    using sentinel_total [of None] by blast
  from both have "overallProgress 5 (totalSize_of None) = (if (5::nat) = 0 then 0 else 100)"
    by blast
  with both show ?thesis by simp
qed

text \<open>
  Claim C2, as amended. For every record with a chunk count below \<^verbatim>\<open>2^32\<close>, a download
  that is started while the progress array has at most \<^verbatim>\<open>total_chunks\<close> entries, whose
  stream ends without an error and delivers at least as many bytes as the declared total
  (the \<^verbatim>\<open>Content-Length\<close>, or the sentinel 1), makes as its last progress update before
  the cleanup an array of length \<^verbatim>\<open>total_chunks\<close> with every entry 100; the cleanup then
  sets the empty array. The No-DFS page, whose records have no chunk count, never sets a
  progress array.
\<close>

theorem completed_download_progress:
  assumes "length (downloadProgress s) \<le> total_chunks fileRecord"
      and "net = Resolved response"
      and "body response = Some reader"
      and "ending reader = Done"
      and "totalSize_of (content_length response)
             \<le> of_nat (sum_list (map length (segments reader)))"
  shows "(total_chunks fileRecord < 2 ^ 32 \<longrightarrow>
          caught (handleDownload s fileRecord startTime endTime net b) = None
        \<and> last (butlast (progress_updates (handleDownload s fileRecord startTime endTime net b)))
            = replicate (total_chunks fileRecord) 100
        \<and> downloadProgress (final_state (handleDownload s fileRecord startTime endTime net b))
            = [])
       \<and> progress_updates (nodfs_handleDownload s' file startTime endTime net b) = []"
proof (intro conjI impI)
  show "progress_updates (nodfs_handleDownload s' file startTime endTime net b) = []"
    by (simp add: nodfs_handleDownload_def Let_def split_beta)
next
  assume small: "total_chunks fileRecord < 2 ^ 32"
  let ?t = "totalSize_of (content_length response)"
  let ?segs = "segments reader"
  let ?f = "\<lambda>r. distribute (downloadProgress s) (total_chunks fileRecord) (overallProgress r ?t)"
  have "0 < sum_list (map length ?segs)"
    using assms(5) totalSize_of_pos [of "content_length response"]
    by (cases "sum_list (map length ?segs)") simp_all
  then have ne: "?segs \<noteq> []" by auto
  then have ne': "received_after 0 ?segs \<noteq> []" by (simp add: received_after_Nil_iff)
  have "last (map ?f (received_after 0 ?segs)) = ?f (last (received_after 0 ?segs))"
    using ne' by (simp add: last_map)
  also have "\<dots> = ?f (sum_list (map length ?segs))"
    using ne by (simp add: received_after_last)
  also have "\<dots> = replicate (total_chunks fileRecord) 100"
    using assms(1,5) by (simp add: distribute_closed overallProgress_full totalSize_of_pos)
  finally have lst: "last (map ?f (received_after 0 ?segs)) = replicate (total_chunks fileRecord) 100" .
  have ups: "butlast (progress_updates (handleDownload s fileRecord startTime endTime net b))
               = replicate (total_chunks fileRecord) 0 # map ?f (received_after 0 ?segs)"
    using small assms(2,3,4) by (simp add: handleDownload_done butlast_append)
  have "last (replicate (total_chunks fileRecord) 0 # map ?f (received_after 0 ?segs))
          = replicate (total_chunks fileRecord) 100"
    using ne' lst by simp
  with ups show "last (butlast (progress_updates (handleDownload s fileRecord startTime endTime net b)))
            = replicate (total_chunks fileRecord) 100"
    by simp
  show "caught (handleDownload s fileRecord startTime endTime net b) = None"
    using small assms(2,3,4) by (simp add: handleDownload_done)
  show "downloadProgress (final_state (handleDownload s fileRecord startTime endTime net b)) = []"
    using small assms(2,3,4) by (simp add: handleDownload_done)
qed

theorem completed_download_progress_witness:
  "caught (handleDownload initial_state
      \<lparr>file_id = 7, filename = ''a.bin'', file_hash = ''h'', file_size = 10,
       created_at = ''t'', total_chunks = 4\<rparr> 0 5
      (Resolved \<lparr>body = Some \<lparr>segments = [[1, 2, 3, 4, 5], [6, 7, 8, 9, 10]], ending = Done\<rparr>,
                 content_length = Some 10\<rparr>)
      empty_browser) = None
   \<and> last (butlast (progress_updates (handleDownload initial_state
      \<lparr>file_id = 7, filename = ''a.bin'', file_hash = ''h'', file_size = 10,
       created_at = ''t'', total_chunks = 4\<rparr> 0 5
      (Resolved \<lparr>body = Some \<lparr>segments = [[1, 2, 3, 4, 5], [6, 7, 8, 9, 10]], ending = Done\<rparr>,
                 content_length = Some 10\<rparr>)
      empty_browser))) = [100, 100, 100, 100]"
  using completed_download_progress [of initial_state
      "\<lparr>file_id = 7, filename = ''a.bin'', file_hash = ''h'', file_size = 10,
        created_at = ''t'', total_chunks = 4\<rparr>"
      "Resolved \<lparr>body = Some \<lparr>segments = [[1, 2, 3, 4, 5], [6, 7, 8, 9, 10]], ending = Done\<rparr>,
                 content_length = Some 10\<rparr>"
      "\<lparr>body = Some \<lparr>segments = [[1, 2, 3, 4, 5], [6, 7, 8, 9, 10]], ending = Done\<rparr>,
                 content_length = Some 10\<rparr>"
      "\<lparr>segments = [[1, 2, 3, 4, 5], [6, 7, 8, 9, 10]], ending = Done\<rparr>" 0 5 empty_browser]
  by (simp add: initial_state_def totalSize_of_def Number_header_def replicate_4)

text \<open>
  Claim C2 as stated fails for a four-chunk record whose body is empty: the download
  succeeds, no segment arrives, and the only arrays ever set are the four zeros and the
  empty array of the cleanup. It fails as well when the stream ends after 3 of 10 declared
  bytes: the last update before the cleanup is four times 30.
\<close>

theorem completed_download_progress_counterexample:
  "caught (handleDownload initial_state
      \<lparr>file_id = 7, filename = ''a.bin'', file_hash = ''h'', file_size = 0,
       created_at = ''t'', total_chunks = 4\<rparr> 0 5
      (Resolved \<lparr>body = Some \<lparr>segments = [], ending = Done\<rparr>, content_length = Some 0\<rparr>)
      empty_browser) = None
   \<and> progress_updates (handleDownload initial_state
      \<lparr>file_id = 7, filename = ''a.bin'', file_hash = ''h'', file_size = 0,
       created_at = ''t'', total_chunks = 4\<rparr> 0 5
      (Resolved \<lparr>body = Some \<lparr>segments = [], ending = Done\<rparr>, content_length = Some 0\<rparr>)
      empty_browser) = [[0, 0, 0, 0], []]
   \<and> progress_updates (handleDownload initial_state
      \<lparr>file_id = 7, filename = ''a.bin'', file_hash = ''h'', file_size = 10,
       created_at = ''t'', total_chunks = 4\<rparr> 0 5
      (Resolved \<lparr>body = Some \<lparr>segments = [[1, 2, 3]], ending = Done\<rparr>,
                 content_length = Some 10\<rparr>)
      empty_browser) = [[0, 0, 0, 0], [30, 30, 30, 30], []]"
  by (simp add: handleDownload_done distribute_closed overallProgress_3_of_10 initial_state_def
      totalSize_of_def Number_header_def replicate_4)

section \<open>Cleanup after a download\<close>

text \<open>
  Claim C5, as amended. For every record whose chunk count is below \<^verbatim>\<open>2^32\<close>, the lengths
  that \<^verbatim>\<open>new Array\<close> accepts: after every call of \<^verbatim>\<open>handleDownload\<close>, whatever the fetch
  and the stream do, \<^verbatim>\<open>downloadingFile\<close> is null and \<^verbatim>\<open>downloadProgress\<close> is empty, and no
  error leaves the handler. The \<^verbatim>\<open>try\<close> block throws exactly when the fetch rejects, the
  body is null or a read rejects; what it throws is caught, and then the message is
  \<^verbatim>\<open>Download failed\<close>.
\<close>

theorem download_always_cleans_up:
  assumes "total_chunks fileRecord < 2 ^ 32"
  shows "downloadingFile (final_state (handleDownload s fileRecord startTime endTime net b)) = None
   \<and> downloadProgress (final_state (handleDownload s fileRecord startTime endTime net b)) = []
   \<and> escaped (handleDownload s fileRecord startTime endTime net b) = None
   \<and> (caught (handleDownload s fileRecord startTime endTime net b) = None
        \<longleftrightarrow> (\<exists>response reader. net = Resolved response \<and> body response = Some reader
                                   \<and> ending reader = Done))
   \<and> (caught (handleDownload s fileRecord startTime endTime net b) \<noteq> None
        \<longrightarrow> errorMessage (final_state (handleDownload s fileRecord startTime endTime net b))
              = ''Download failed'')"
proof (cases net)
  case Rejected
  with assms show ?thesis by (simp add: handleDownload_rejected)
next
  case (Resolved response)
  show ?thesis
  proof (cases "body response")
    case None
    with assms Resolved show ?thesis by (simp add: handleDownload_no_body)
  next
    case (Some reader)
    with assms Resolved show ?thesis
      by (cases "ending reader") (simp_all add: handleDownload_done handleDownload_read_fails)
  qed
qed

theorem download_always_cleans_up_witness:
  "caught (handleDownload (initial_state\<lparr>errorMessage := ''old''\<rparr>)
      \<lparr>file_id = 7, filename = ''a.bin'', file_hash = ''h'', file_size = 10,
       created_at = ''t'', total_chunks = 4\<rparr> 0 5
      (Resolved \<lparr>body = Some \<lparr>segments = [[1, 2, 3]], ending = ReadFails\<rparr>,
                 content_length = Some 10\<rparr>)
      empty_browser) \<noteq> None
   \<and> errorMessage (final_state (handleDownload (initial_state\<lparr>errorMessage := ''old''\<rparr>)
      \<lparr>file_id = 7, filename = ''a.bin'', file_hash = ''h'', file_size = 10,
       created_at = ''t'', total_chunks = 4\<rparr> 0 5
      (Resolved \<lparr>body = Some \<lparr>segments = [[1, 2, 3]], ending = ReadFails\<rparr>,
                 content_length = Some 10\<rparr>)
      empty_browser)) = ''Download failed''
   \<and> escaped (handleDownload (initial_state\<lparr>errorMessage := ''old''\<rparr>)
      \<lparr>file_id = 7, filename = ''a.bin'', file_hash = ''h'', file_size = 10,
       created_at = ''t'', total_chunks = 4\<rparr> 0 5
      (Resolved \<lparr>body = Some \<lparr>segments = [[1, 2, 3]], ending = ReadFails\<rparr>,
                 content_length = Some 10\<rparr>)
      empty_browser) = None"
  using download_always_cleans_up [of
      "\<lparr>file_id = 7, filename = ''a.bin'', file_hash = ''h'', file_size = 10,
        created_at = ''t'', total_chunks = 4\<rparr>" "initial_state\<lparr>errorMessage := ''old''\<rparr>" 0 5
      "Resolved \<lparr>body = Some \<lparr>segments = [[1, 2, 3]], ending = ReadFails\<rparr>,
                 content_length = Some 10\<rparr>" empty_browser]
  by simp

text \<open>
  Claim C5 as stated fails for a record whose chunk count is \<^verbatim>\<open>2^32\<close>: the array of line 82
  cannot be made, the \<^verbatim>\<open>RangeError\<close> is thrown before the \<^verbatim>\<open>try\<close> block and leaves the
  handler, no request is sent, and \<^verbatim>\<open>downloadingFile\<close> stays set to the record.
\<close>

theorem download_always_cleans_up_counterexample:
  "escaped (handleDownload initial_state
      \<lparr>file_id = 7, filename = ''a.bin'', file_hash = ''h'', file_size = 10,
       created_at = ''t'', total_chunks = 4294967296\<rparr> 0 5
      (Resolved \<lparr>body = Some \<lparr>segments = [[1, 2, 3]], ending = Done\<rparr>,
                 content_length = Some 3\<rparr>)
      empty_browser) = Some RangeError
   \<and> downloadingFile (final_state (handleDownload initial_state
      \<lparr>file_id = 7, filename = ''a.bin'', file_hash = ''h'', file_size = 10,
       created_at = ''t'', total_chunks = 4294967296\<rparr> 0 5
      (Resolved \<lparr>body = Some \<lparr>segments = [[1, 2, 3]], ending = Done\<rparr>,
                 content_length = Some 3\<rparr>)
      empty_browser))
     = Some \<lparr>file_id = 7, filename = ''a.bin'', file_hash = ''h'', file_size = 10,
       created_at = ''t'', total_chunks = 4294967296\<rparr>
   \<and> sent (handleDownload initial_state
      \<lparr>file_id = 7, filename = ''a.bin'', file_hash = ''h'', file_size = 10,
       created_at = ''t'', total_chunks = 4294967296\<rparr> 0 5
      (Resolved \<lparr>body = Some \<lparr>segments = [[1, 2, 3]], ending = Done\<rparr>,
                 content_length = Some 3\<rparr>)
      empty_browser) = []"
  by (simp add: handleDownload_range_error)

section \<open>Saving the file\<close>

lemma artifact_save_result:
  "artifact_save blob name b =
     b\<lparr>object_urls := (next_url b, blob) # object_urls b,
       next_url := next_url b + 1,
       saved_files := saved_files b @ [(name, blob)]\<rparr>"
  by (simp add: artifact_save_def createObjectURL_def appendChild_def click_def
      remove_element_def Let_def)

lemma nodfs_handleDownload_done:
  "body response = Some reader \<Longrightarrow> ending reader = Done \<Longrightarrow>
   nodfs_handleDownload s file st et (Resolved response) b =
     \<lparr>final_state = s\<lparr>downloadTime := Some (et - st), errorMessage := ''''\<rparr>,
      final_browser = artifact_save (concat (segments reader)) (filename file) b,
      sent = [GET (download_path NoDFS) (Some (file_id file))],
      progress_updates = [],
      caught = None, escaped = None\<rparr>"
  by (simp add: nodfs_handleDownload_def blob_of_def Let_def)

text \<open>
  Claim C9, as amended. For every download whose stream ends without an error, on either
  page (on the DFS page for a chunk count below \<^verbatim>\<open>2^32\<close>), the handler registers an object
  URL for the bytes of the body, triggers one save-as flow for these bytes under the
  record's file name, and removes the anchor it had appended, so that the document is as
  before; the object URL is not revoked: it is still in the store, with the bytes, when
  the handler is done.
\<close>

theorem save_flow:
  assumes "net = Resolved response"
      and "body response = Some reader"
      and "ending reader = Done"
  shows "(total_chunks fileRecord < 2 ^ 32 \<longrightarrow>
          final_browser (handleDownload s fileRecord startTime endTime net b) =
            b\<lparr>object_urls := (next_url b, concat (segments reader)) # object_urls b,
              next_url := next_url b + 1,
              saved_files := saved_files b @ [(filename fileRecord, concat (segments reader))]\<rparr>
        \<and> document_body (final_browser (handleDownload s fileRecord startTime endTime net b))
            = document_body b
        \<and> map_of (object_urls (final_browser (handleDownload s fileRecord startTime endTime net b)))
             (next_url b) = Some (concat (segments reader)))
       \<and> final_browser (nodfs_handleDownload s' file startTime endTime net b) =
           b\<lparr>object_urls := (next_url b, concat (segments reader)) # object_urls b,
             next_url := next_url b + 1,
             saved_files := saved_files b @ [(filename file, concat (segments reader))]\<rparr>"
  using assms
  by (simp add: handleDownload_done nodfs_handleDownload_done artifact_save_result)

theorem save_flow_witness:
  "final_browser (handleDownload initial_state
      \<lparr>file_id = 7, filename = ''a.bin'', file_hash = ''h'', file_size = 3,
       created_at = ''t'', total_chunks = 1\<rparr> 0 5
      (Resolved \<lparr>body = Some \<lparr>segments = [[1, 2], [3]], ending = Done\<rparr>,
                 content_length = Some 3\<rparr>)
      empty_browser)
   = \<lparr>object_urls = [(0, [1, 2, 3])], next_url = 1, document_body = [],
      saved_files = [(''a.bin'', [1, 2, 3])]\<rparr>"
  using save_flow [of
      "Resolved \<lparr>body = Some \<lparr>segments = [[1, 2], [3]], ending = Done\<rparr>,
                 content_length = Some 3\<rparr>"
      "\<lparr>body = Some \<lparr>segments = [[1, 2], [3]], ending = Done\<rparr>, content_length = Some 3\<rparr>"
      "\<lparr>segments = [[1, 2], [3]], ending = Done\<rparr>"
      "\<lparr>file_id = 7, filename = ''a.bin'', file_hash = ''h'', file_size = 3,
        created_at = ''t'', total_chunks = 1\<rparr>" initial_state 0 5 empty_browser]
  by (simp add: empty_browser_def)

text \<open>
  Claim C9 as stated fails in its last step. The first object URL of an empty browser is 0;
  after the download it still names the bytes: nothing released it.
\<close>

theorem save_flow_counterexample:
  "map_of (object_urls (final_browser (handleDownload initial_state
      \<lparr>file_id = 7, filename = ''a.bin'', file_hash = ''h'', file_size = 3,
       created_at = ''t'', total_chunks = 1\<rparr> 0 5
      (Resolved \<lparr>body = Some \<lparr>segments = [[1, 2, 3]], ending = Done\<rparr>,
                 content_length = Some 3\<rparr>)
      empty_browser))) 0 = Some [1, 2, 3]
   \<and> next_url empty_browser = 0"
  by (simp add: handleDownload_done artifact_save_result empty_browser_def)

section \<open>List, upload and delete\<close>

lemma fetch_json_success:
  "ok res \<Longrightarrow> json res = Resolved d \<Longrightarrow> fetch_json (Resolved res) msg = Inr d"
  by (simp add: fetch_json_def)

lemma fetch_json_failure:
  "net = Rejected \<or> (\<exists>res. net = Resolved res \<and> (\<not> ok res \<or> json res = Rejected)) \<Longrightarrow>
   \<exists>e. fetch_json net msg = Inl e"
  by (auto simp: fetch_json_def)

text \<open>
  Claim C10. When the list request fails (the fetch rejects, the status is not a success,
  or the body is not the JSON expected), \<^verbatim>\<open>fetchFiles\<close> sets the message and nothing else:
  \<^verbatim>\<open>fileList\<close> is what it was. This holds on both pages.
\<close>

theorem list_failure_keeps_mirror:
  assumes "net = Rejected \<or> (\<exists>res. net = Resolved res \<and> (\<not> ok res \<or> json res = Rejected))"
  shows "fetchFiles p s net =
           (s\<lparr>errorMessage := ''Error fetching file list''\<rparr>, [GET (list_path p) None])
       \<and> fileList (fst (fetchFiles p s net)) = fileList s"
proof -
  obtain e where "fetch_json net ''Failed to fetch file list'' = Inl e"
    using fetch_json_failure [OF assms] by blast
  then show ?thesis by (simp add: fetchFiles_def)
qed

theorem list_failure_keeps_mirror_witness:
  "fetchFiles DFS
      (initial_state\<lparr>fileList := [\<lparr>file_id = 7, filename = ''a.bin'', file_hash = ''h'',
          file_size = 3, created_at = ''t'', total_chunks = 1\<rparr>]\<rparr>)
      (Resolved \<lparr>ok = False, json = Rejected\<rparr>)
   = (initial_state\<lparr>fileList := [\<lparr>file_id = 7, filename = ''a.bin'', file_hash = ''h'',
          file_size = 3, created_at = ''t'', total_chunks = 1\<rparr>],
        errorMessage := ''Error fetching file list''\<rparr>,
      [GET ''/list'' None])"
  using list_failure_keeps_mirror [of "Resolved \<lparr>ok = False, json = Rejected\<rparr>" DFS
      "initial_state\<lparr>fileList := [\<lparr>file_id = 7, filename = ''a.bin'', file_hash = ''h'',
          file_size = 3, created_at = ''t'', total_chunks = 1\<rparr>]\<rparr>"]
  by simp

text \<open>
  Claim C7, as amended. For every delete request: when the response has a success status
  and its body parses as JSON, the handler goes on to \<^verbatim>\<open>fetchFiles\<close>, sending the list
  request, and the state is what \<^verbatim>\<open>fetchFiles\<close> makes of it: with a successful listing
  \<^verbatim>\<open>fileList\<close> is replaced by the files listed and the message is empty. When the request
  fails, the status is not a success, or the body of a success response does not parse, no
  list request is sent, \<^verbatim>\<open>fileList\<close> is unchanged and the message is \<^verbatim>\<open>Delete failed\<close>.
\<close>

theorem delete_refreshes_or_keeps:
  "(del = Resolved res \<and> ok res \<and> json res = Resolved ack \<longrightarrow>
      handleDelete p s fileId del ls =
        (fst (fetchFiles p (s\<lparr>errorMessage := ''''\<rparr>) ls),
         [DELETE (delete_path p) fileId, GET (list_path p) None])
      \<and> (ls = Resolved lres \<and> ok lres \<and> json lres = Resolved files \<longrightarrow>
           fst (handleDelete p s fileId del ls) = s\<lparr>errorMessage := '''', fileList := files\<rparr>))
   \<and> (del = Rejected \<or> (\<exists>r. del = Resolved r \<and> (\<not> ok r \<or> json r = Rejected)) \<longrightarrow>
      handleDelete p s fileId del ls =
        (s\<lparr>errorMessage := ''Delete failed''\<rparr>, [DELETE (delete_path p) fileId])
      \<and> fileList (fst (handleDelete p s fileId del ls)) = fileList s)"
proof (intro conjI impI)
  assume "del = Resolved res \<and> ok res \<and> json res = Resolved ack"
  then have ok: "fetch_json del ''Delete failed'' = Inr ack"
    by (simp add: fetch_json_success)
  then show "handleDelete p s fileId del ls =
        (fst (fetchFiles p (s\<lparr>errorMessage := ''''\<rparr>) ls),
         [DELETE (delete_path p) fileId, GET (list_path p) None])"
    by (simp add: handleDelete_def Let_def split_beta) (simp add: fetchFiles_def)
  assume "ls = Resolved lres \<and> ok lres \<and> json lres = Resolved files"
  then have "fetch_json ls ''Failed to fetch file list'' = Inr files"
    by (simp add: fetch_json_success)
  with ok show "fst (handleDelete p s fileId del ls) = s\<lparr>errorMessage := '''', fileList := files\<rparr>"
    by (simp add: handleDelete_def fetchFiles_def Let_def split_beta)
next
  assume "del = Rejected \<or> (\<exists>r. del = Resolved r \<and> (\<not> ok r \<or> json r = Rejected))"
  then obtain e where e: "fetch_json del ''Delete failed'' = Inl e"
    using fetch_json_failure by blast
  then show "handleDelete p s fileId del ls =
        (s\<lparr>errorMessage := ''Delete failed''\<rparr>, [DELETE (delete_path p) fileId])"
    by (simp add: handleDelete_def)
  from e show "fileList (fst (handleDelete p s fileId del ls)) = fileList s"
    by (simp add: handleDelete_def)
qed

theorem delete_refreshes_or_keeps_witness:
  "handleDelete DFS
      (initial_state\<lparr>fileList :=
         [\<lparr>file_id = 7, filename = ''a.bin'', file_hash = ''h'',
           file_size = 3, created_at = ''t'', total_chunks = 1\<rparr>,
          \<lparr>file_id = 8, filename = ''b.bin'', file_hash = ''g'',
           file_size = 4, created_at = ''t'', total_chunks = 2\<rparr>],
         errorMessage := ''old''\<rparr>)
      7 (Resolved \<lparr>ok = True, json = Resolved ()\<rparr>)
      (Resolved \<lparr>ok = True, json = Resolved
         [\<lparr>file_id = 8, filename = ''b.bin'', file_hash = ''g'',
           file_size = 4, created_at = ''t'', total_chunks = 2\<rparr>]\<rparr>)
   = (initial_state\<lparr>fileList :=
         [\<lparr>file_id = 8, filename = ''b.bin'', file_hash = ''g'',
           file_size = 4, created_at = ''t'', total_chunks = 2\<rparr>]\<rparr>,
      [DELETE ''/delete'' 7, GET ''/list'' None])
   \<and> handleDelete DFS
      (initial_state\<lparr>fileList :=
         [\<lparr>file_id = 7, filename = ''a.bin'', file_hash = ''h'',
           file_size = 3, created_at = ''t'', total_chunks = 1\<rparr>,
          \<lparr>file_id = 8, filename = ''b.bin'', file_hash = ''g'',
           file_size = 4, created_at = ''t'', total_chunks = 2\<rparr>],
         errorMessage := ''old''\<rparr>)
      7 (Resolved \<lparr>ok = False, json = Resolved ()\<rparr>)
      (Resolved \<lparr>ok = True, json = Resolved
         [\<lparr>file_id = 8, filename = ''b.bin'', file_hash = ''g'',
           file_size = 4, created_at = ''t'', total_chunks = 2\<rparr>]\<rparr>)
   = (initial_state\<lparr>fileList :=
         [\<lparr>file_id = 7, filename = ''a.bin'', file_hash = ''h'',
           file_size = 3, created_at = ''t'', total_chunks = 1\<rparr>,
          \<lparr>file_id = 8, filename = ''b.bin'', file_hash = ''g'',
           file_size = 4, created_at = ''t'', total_chunks = 2\<rparr>],
         errorMessage := ''Delete failed''\<rparr>,
      [DELETE ''/delete'' 7])"
  using delete_refreshes_or_keeps [of "Resolved \<lparr>ok = True, json = Resolved ()\<rparr>"
      "\<lparr>ok = True, json = Resolved ()\<rparr>" "()" DFS
      "initial_state\<lparr>fileList :=
         [\<lparr>file_id = 7, filename = ''a.bin'', file_hash = ''h'',
           file_size = 3, created_at = ''t'', total_chunks = 1\<rparr>,
          \<lparr>file_id = 8, filename = ''b.bin'', file_hash = ''g'',
           file_size = 4, created_at = ''t'', total_chunks = 2\<rparr>],
         errorMessage := ''old''\<rparr>"
      7 "Resolved \<lparr>ok = True, json = Resolved
         [\<lparr>file_id = 8, filename = ''b.bin'', file_hash = ''g'',
           file_size = 4, created_at = ''t'', total_chunks = 2\<rparr>]\<rparr>"
      "\<lparr>ok = True, json = Resolved
         [\<lparr>file_id = 8, filename = ''b.bin'', file_hash = ''g'',
           file_size = 4, created_at = ''t'', total_chunks = 2\<rparr>]\<rparr>"
      "[\<lparr>file_id = 8, filename = ''b.bin'', file_hash = ''g'',
           file_size = 4, created_at = ''t'', total_chunks = 2\<rparr>]"]
    delete_refreshes_or_keeps [of "Resolved \<lparr>ok = False, json = Resolved ()\<rparr>"
      "\<lparr>ok = True, json = Resolved ()\<rparr>" "()" DFS
      "initial_state\<lparr>fileList :=
         [\<lparr>file_id = 7, filename = ''a.bin'', file_hash = ''h'',
           file_size = 3, created_at = ''t'', total_chunks = 1\<rparr>,
          \<lparr>file_id = 8, filename = ''b.bin'', file_hash = ''g'',
           file_size = 4, created_at = ''t'', total_chunks = 2\<rparr>],
         errorMessage := ''old''\<rparr>"
      7 "Resolved \<lparr>ok = True, json = Resolved
         [\<lparr>file_id = 8, filename = ''b.bin'', file_hash = ''g'',
           file_size = 4, created_at = ''t'', total_chunks = 2\<rparr>]\<rparr>"
      "\<lparr>ok = True, json = Resolved
         [\<lparr>file_id = 8, filename = ''b.bin'', file_hash = ''g'',
           file_size = 4, created_at = ''t'', total_chunks = 2\<rparr>]\<rparr>"
      "[\<lparr>file_id = 8, filename = ''b.bin'', file_hash = ''g'',
           file_size = 4, created_at = ''t'', total_chunks = 2\<rparr>]"]
  by (simp add: fetchFiles_def fetch_json_def initial_state_def)

text \<open>
  Claim C7 as stated fails for a response with a success status whose body is not JSON:
  \<^verbatim>\<open>res.json()\<close> rejects, so the handler reports \<^verbatim>\<open>Delete failed\<close> and sends no list
  request, although the listing would have succeeded.
\<close>

theorem delete_refreshes_or_keeps_counterexample:
  "handleDelete DFS
      (initial_state\<lparr>fileList :=
         [\<lparr>file_id = 7, filename = ''a.bin'', file_hash = ''h'',
           file_size = 3, created_at = ''t'', total_chunks = 1\<rparr>]\<rparr>)
      7 (Resolved \<lparr>ok = True, json = (Rejected :: unit promise)\<rparr>)
      (Resolved \<lparr>ok = True, json = Resolved []\<rparr>)
   = (initial_state\<lparr>fileList :=
         [\<lparr>file_id = 7, filename = ''a.bin'', file_hash = ''h'',
           file_size = 3, created_at = ''t'', total_chunks = 1\<rparr>],
        errorMessage := ''Delete failed''\<rparr>,
      [DELETE ''/delete'' 7])"
  by (simp add: handleDelete_def fetch_json_def initial_state_def)

text \<open>
  Claim C8. With no file selected, \<^verbatim>\<open>handleUploadSubmit\<close> sends no request and returns
  the state unchanged. With a file selected, it sends the upload request and, whatever the
  upload and the list request do, \<^verbatim>\<open>uploading\<close> is false at the end, which enables the
  submit button again.
\<close>

theorem upload_submit_guard:
  "(selectedFile s = None \<longrightarrow> handleUploadSubmit p s up ls = (s, []))
   \<and> (selectedFile s = Some file \<longrightarrow>
        uploading (fst (handleUploadSubmit p s up ls)) = False
        \<and> hd (snd (handleUploadSubmit p s up ls)) = POST (upload_path p) file)"
  by (simp add: handleUploadSubmit_def Let_def split_beta)

theorem upload_submit_guard_witness:
  "handleUploadSubmit NoDFS
      \<lparr>fileList = [] :: NoDFSFile list, selectedFile = None, uploading = False,
       downloadTime = None, errorMessage = ''old''\<rparr>
      (Resolved \<lparr>ok = True, json = Resolved ()\<rparr>) (Resolved \<lparr>ok = True, json = Resolved []\<rparr>)
   = (\<lparr>fileList = [], selectedFile = None, uploading = False,
       downloadTime = None, errorMessage = ''old''\<rparr>, [])
   \<and> uploading (fst (handleUploadSubmit NoDFS
      \<lparr>fileList = [] :: NoDFSFile list,
       selectedFile = Some \<lparr>file_name = ''a.bin'', file_bytes = [1, 2, 3]\<rparr>, uploading = False,
       downloadTime = None, errorMessage = ''old''\<rparr>
      (Rejected :: unit response promise) (Resolved \<lparr>ok = True, json = Resolved []\<rparr>))) = False"
  using upload_submit_guard [of
      "\<lparr>fileList = [] :: NoDFSFile list, selectedFile = None, uploading = False,
       downloadTime = None, errorMessage = ''old''\<rparr>" NoDFS
      "Resolved \<lparr>ok = True, json = Resolved ()\<rparr>" "Resolved \<lparr>ok = True, json = Resolved []\<rparr>"]
    upload_submit_guard [of
      "\<lparr>fileList = [] :: NoDFSFile list,
       selectedFile = Some \<lparr>file_name = ''a.bin'', file_bytes = [1, 2, 3]\<rparr>, uploading = False,
       downloadTime = None, errorMessage = ''old''\<rparr>" NoDFS
      "Rejected :: unit response promise" "Resolved \<lparr>ok = True, json = Resolved []\<rparr>"
      "\<lparr>file_name = ''a.bin'', file_bytes = [1, 2, 3]\<rparr>"]
  by simp

end
